theory Spec2Isabelle
  imports Main
begin

section \<open>Data model of checkDeps.ts\<close>

text \<open>
  The embedding follows \<^verbatim>\<open>src/checkDeps.ts\<close>. A JavaScript \<^verbatim>\<open>string | null\<close> is a
  \<open>string option\<close> (\<open>None\<close> for \<^verbatim>\<open>null\<close> and for \<^verbatim>\<open>undefined\<close>); a string is a list of
  characters. An exception is a value \<open>Inl fault\<close> of a sum type, so that every \<^verbatim>\<open>throw\<close>
  and every rejected promise of the source is a branch of the model. The calls to
  \<^verbatim>\<open>console.log\<close> are left out: they do not influence any returned value.
\<close>

datatype VersionCheckResult = latest | outdated | not_found | invalid_version | not_fixed

record VersionCheckSummaryItem =
  packageName :: string
  currentVersion :: "string option"
  latestVersion :: "string option"
  checkResult :: VersionCheckResult

datatype fault = TypeError | SyntaxError | RequestError nat | NetworkError

subsection \<open>The semver library\<close>

text \<open>
  The package \<^verbatim>\<open>semver\<close> is a third-party dependency, imported by name and not part of the
  repository. The three functions the source calls are parameters of the model:
  \<^verbatim>\<open>semver.valid\<close> and \<^verbatim>\<open>semver.clean\<close> return the normalised version or \<^verbatim>\<open>null\<close>, and
  \<^verbatim>\<open>semver.gtr(version, range)\<close> returns a boolean or throws a TypeError when the version
  or the range cannot be parsed.
\<close>

record semver_lib =
  valid :: "string \<Rightarrow> string option"
  gtr :: "string \<Rightarrow> string \<Rightarrow> fault + bool"
  clean :: "string \<Rightarrow> string option"

subsection \<open>checkVersion\<close>

text \<open>
  JavaScript's \<^verbatim>\<open>!v\<close> for a \<^verbatim>\<open>string | null\<close> is true for \<^verbatim>\<open>null\<close> and for the empty string:
  \<open>falsy\<close>. Where the source goes on to use the value that passed the test, the test is
  written as the case distinction that names the value.
\<close>

definition falsy :: "string option \<Rightarrow> bool" where
  "falsy v = (case v of None \<Rightarrow> True | Some s \<Rightarrow> s = [])"

definition checkVersion ::
  "semver_lib \<Rightarrow> string \<Rightarrow> string option \<Rightarrow> string option \<Rightarrow> VersionCheckResult" where
  "checkVersion sv pkgName curVer latestVer =
     (case curVer of
        None \<Rightarrow> invalid_version
      | Some cur \<Rightarrow>
          if cur = [] then invalid_version
          else
            (case latestVer of
               None \<Rightarrow> not_found
             | Some lat \<Rightarrow>
                 if lat = [] then not_found
                 else
                   (case valid sv lat of
                      None \<Rightarrow> invalid_version
                    | Some latestVerValid \<Rightarrow>
                        if latestVerValid = [] then invalid_version
                        else
                          (case gtr sv latestVerValid cur of
                             Inl _ \<Rightarrow> invalid_version
                           | Inr isGreater \<Rightarrow>
                               if isGreater then outdated
                               else if falsy (valid sv cur) then not_fixed
                               else latest))))"

subsection \<open>A model of a fragment of the semver library\<close>

text \<open>
  To evaluate \<open>checkVersion\<close> at concrete inputs the library parameter has to be
  instantiated. \<open>semver_fragment\<close> follows the documented behaviour of node-semver on plain
  versions \<^verbatim>\<open>MAJOR.MINOR.PATCH\<close> (optionally prefixed by \<^verbatim>\<open>v\<close>) and on the ranges
  \<^verbatim>\<open>*\<close>, the empty range, an exact version, \<^verbatim>\<open>^version\<close> and \<^verbatim>\<open>~version\<close>. Strings with
  prerelease or build parts, surrounding blanks, partial versions and compound ranges are
  outside the fragment; the model rejects them. It is used only to instantiate theorems
  that are stated for an arbitrary library.
\<close>

definition isDigit :: "char \<Rightarrow> bool" where
  "isDigit c = (c \<in> set ''0123456789'')"

definition digitValue :: "char \<Rightarrow> nat" where
  "digitValue c = of_char c - 48"

text \<open>The token \<^verbatim>\<open>0|[1-9]\d*\<close> and its value.\<close>

fun numericIdentifier :: "string \<Rightarrow> nat option" where
  "numericIdentifier [] = None"
| "numericIdentifier (c # cs) =
     (if \<not> list_all isDigit (c # cs) then None
      else if c = CHR ''0'' \<and> cs \<noteq> [] then None
      else Some (foldl (\<lambda>a d. 10 * a + digitValue d) 0 (c # cs)))"

text \<open>\<^verbatim>\<open>String.prototype.split\<close> with a one-character separator.\<close>

fun js_split :: "char \<Rightarrow> string \<Rightarrow> string list" where
  "js_split sep [] = [[]]"
| "js_split sep (c # cs) =
     (if c = sep then [] # js_split sep cs
      else (case js_split sep cs of
              [] \<Rightarrow> [[c]]
            | w # ws \<Rightarrow> (c # w) # ws))"

type_synonym version = "nat \<times> nat \<times> nat"

definition mainVersion :: "string \<Rightarrow> version option" where
  "mainVersion s =
     (case js_split CHR ''.'' s of
        [a, b, c] \<Rightarrow>
          (case (numericIdentifier a, numericIdentifier b, numericIdentifier c) of
             (Some x, Some y, Some z) \<Rightarrow> Some (x, y, z)
           | _ \<Rightarrow> None)
      | _ \<Rightarrow> None)"

definition stripV :: "string \<Rightarrow> string" where
  "stripV s = (case s of c # cs \<Rightarrow> (if c = CHR ''v'' then cs else s) | [] \<Rightarrow> s)"

definition parseVersion :: "string \<Rightarrow> version option" where
  "parseVersion s = mainVersion (stripV s)"

fun versionLess :: "version \<Rightarrow> version \<Rightarrow> bool" where
  "versionLess (a, b, c) (x, y, z) = (a < x \<or> (a = x \<and> (b < y \<or> (b = y \<and> c < z))))"

datatype range = AnyVersion | Exact version | Caret version | Tilde version

definition parseRange :: "string \<Rightarrow> range option" where
  "parseRange s =
     (case s of
        [] \<Rightarrow> Some AnyVersion
      | c # cs \<Rightarrow>
          if s = ''*'' then Some AnyVersion
          else if c = CHR ''^'' then map_option Caret (mainVersion cs)
          else if c = CHR ''~'' then map_option Tilde (mainVersion cs)
          else map_option Exact (parseVersion s))"

text \<open>
  \<open>aboveRange v r\<close>: the version \<open>v\<close> is greater than every version the range accepts.
  \<^verbatim>\<open>^M.m.p\<close> accepts the versions from \<^verbatim>\<open>M.m.p\<close> up to, and excluding, the next change of
  the leftmost non-zero component; \<^verbatim>\<open>~M.m.p\<close> accepts those up to the next minor version.
\<close>

fun caretBound :: "version \<Rightarrow> version" where
  "caretBound (M, m, p) =
     (if M > 0 then (M + 1, 0, 0) else if m > 0 then (0, m + 1, 0) else (0, 0, p + 1))"

fun tildeBound :: "version \<Rightarrow> version" where
  "tildeBound (M, m, p) = (M, m + 1, 0)"

fun aboveRange :: "version \<Rightarrow> range \<Rightarrow> bool" where
  "aboveRange v AnyVersion = False"
| "aboveRange v (Exact x) = versionLess x v"
| "aboveRange v (Caret x) = (\<not> versionLess v (caretBound x))"
| "aboveRange v (Tilde x) = (\<not> versionLess v (tildeBound x))"

definition fragment_valid :: "string \<Rightarrow> string option" where
  "fragment_valid s = (case parseVersion s of None \<Rightarrow> None | Some _ \<Rightarrow> Some (stripV s))"

definition fragment_gtr :: "string \<Rightarrow> string \<Rightarrow> fault + bool" where
  "fragment_gtr v r =
     (case parseVersion v of
        None \<Rightarrow> Inl TypeError
      | Some ver \<Rightarrow>
          (case parseRange r of
             None \<Rightarrow> Inl TypeError
           | Some rng \<Rightarrow> Inr (aboveRange ver rng)))"

definition fragment_clean :: "string \<Rightarrow> string option" where
  "fragment_clean s = fragment_valid (dropWhile (\<lambda>c. c = CHR ''='' \<or> c = CHR ''v'') s)"

definition semver_fragment :: semver_lib where
  "semver_fragment = \<lparr> valid = fragment_valid, gtr = fragment_gtr, clean = fragment_clean \<rparr>"

section \<open>Resolvers\<close>

subsection \<open>decomposePackageNameVersion\<close>

text \<open>\<^verbatim>\<open>String.prototype.lastIndexOf\<close> for one character: \<open>-1\<close> when it does not occur.\<close>

fun lastIndexOf :: "char \<Rightarrow> string \<Rightarrow> int" where
  "lastIndexOf ch [] = -1"
| "lastIndexOf ch (x # xs) =
     (let r = lastIndexOf ch xs in
      if r \<ge> 0 then r + 1 else if x = ch then 0 else -1)"

definition decomposePackageNameVersion :: "string \<Rightarrow> string \<times> string" where
  "decomposePackageNameVersion pkgStr =
     (let index = lastIndexOf CHR ''@'' pkgStr in
      if index \<le> 0 then (pkgStr, [])
      else (take (nat index) pkgStr, drop (nat index + 1) pkgStr))"

subsection \<open>The world outside: caches, network, platform\<close>

text \<open>
  The three module-level caches are \<^verbatim>\<open>Map<string, string | null>\<close>: a key is absent
  (\<open>None\<close>), cached as \<^verbatim>\<open>null\<close> (\<open>Some None\<close>) or cached as a version (\<open>Some (Some v)\<close>).
  \<open>requests\<close> records every outbound call in the order in which it is made; the source
  has no such log, it is what the statements about network calls are about.
\<close>

datatype request = Fetch string | GetLatestRelease "string option" "string option"

type_synonym VersionCache = "string \<rightharpoonup> string option"

record world =
  npmDepsCache :: VersionCache
  denoLandDepsCache :: VersionCache
  gitHubDepsCache :: VersionCache
  requests :: "request list"

text \<open>
  What a \<^verbatim>\<open>fetch\<close> of a metadata URL leads to in the source: the promise rejects or
  reading the version field out of the body throws (\<open>Throws\<close>), the status is not a
  success (\<open>NotOk\<close>, \<^verbatim>\<open>res.ok\<close> is false), or the field is read (\<open>Field\<close>). The source
  casts the field with \<^verbatim>\<open>as string\<close>; a body whose field is not a string is not modelled.
  \<^verbatim>\<open>octokit.rest.repos.getLatestRelease\<close> rejects with a RequestError that carries the
  status when the status is not a success, and with another error on a transport fault
  (\<open>Rejected\<close>); otherwise it returns the release, whose \<^verbatim>\<open>tag_name\<close> may be missing.
\<close>

datatype reply = Throws fault | NotOk | Field string

datatype release_reply = Rejected fault | Release "string option"

record URL =
  hostname :: string
  pathname :: string

text \<open>
  The platform is a parameter: the semver library, the URL parser (\<open>None\<close> when
  \<^verbatim>\<open>new URL\<close> throws), and the network. The network may answer the same request
  differently at different times: its answers depend on the number of requests made so
  far.
\<close>

record platform =
  semver :: semver_lib
  newURL :: "string \<Rightarrow> URL option"
  fetch :: "nat \<Rightarrow> string \<Rightarrow> reply"
  getLatestRelease :: "nat \<Rightarrow> string option \<Rightarrow> string option \<Rightarrow> release_reply"

text \<open>
  A resolver maps a resource to the pair of the current and the latest version; it may
  throw, and it reads and writes a state.
\<close>

type_synonym 's Resolver = "string \<Rightarrow> 's \<Rightarrow> (fault + (string option \<times> string option)) \<times> 's"

subsection \<open>createNpmResolver\<close>

definition createNpmResolver :: "platform \<Rightarrow> world Resolver" where
  "createNpmResolver pf pkgName w =
     (case npmDepsCache w pkgName of
        Some (Some cachedVersion) \<Rightarrow> (Inr (None, Some cachedVersion), w)
      | _ \<Rightarrow>
          let url = ''https://registry.npmjs.org/'' @ pkgName;
              w1 = w\<lparr>requests := requests w @ [Fetch url]\<rparr>
          in (case fetch pf (length (requests w)) url of
                Throws e \<Rightarrow> (Inl e, w1)
              | NotOk \<Rightarrow>
                  (Inr (None, None), w1\<lparr>npmDepsCache := (npmDepsCache w1)(pkgName \<mapsto> None)\<rparr>)
              | Field version \<Rightarrow>
                  (Inr (None, Some version),
                   w1\<lparr>npmDepsCache := (npmDepsCache w1)(pkgName \<mapsto> Some version)\<rparr>)))"

definition npmResolver :: "platform \<Rightarrow> world Resolver" where
  "npmResolver pf = createNpmResolver pf"

subsection \<open>resolveDenoLand and resolveGitHub\<close>

text \<open>
  \<open>at xs i\<close> is the array access \<^verbatim>\<open>xs[i]\<close>, \<^verbatim>\<open>undefined\<close> out of range; \<open>template\<close> is what a
  template literal prints for a value that may be \<^verbatim>\<open>undefined\<close>.
\<close>

definition at :: "'a list \<Rightarrow> nat \<Rightarrow> 'a option" where
  "at xs i = (if i < length xs then Some (xs ! i) else None)"

definition template :: "string option \<Rightarrow> string" where
  "template v = (case v of None \<Rightarrow> ''undefined'' | Some s \<Rightarrow> s)"

text \<open>
  In \<open>resolveDenoLand\<close>, \<^verbatim>\<open>decomposePackageNameVersion(undefined)\<close> throws a TypeError
  (\<^verbatim>\<open>lastIndexOf\<close> of \<^verbatim>\<open>undefined\<close>). The source's local \<^verbatim>\<open>latestVersion\<close> is written
  \<open>latestVersion'\<close>, the plain name being the field of the summary item.
\<close>

definition resolveDenoLand :: "platform \<Rightarrow> URL \<Rightarrow> world \<Rightarrow> (fault + (string option \<times> string option)) \<times> world" where
  "resolveDenoLand pf url w =
     (let path = drop 1 (js_split CHR ''/'' (pathname url));
          pkgStr = (if at path 0 \<noteq> Some ''x'' then at path 0 else at path 1)
      in case pkgStr of
           None \<Rightarrow> (Inl TypeError, w)
         | Some str \<Rightarrow>
             (case decomposePackageNameVersion str of
                (pkgName, pkgVersion) \<Rightarrow>
                  (case denoLandDepsCache w pkgName of
                     Some (Some cachedVersion) \<Rightarrow> (Inr (Some pkgVersion, Some cachedVersion), w)
                   | _ \<Rightarrow>
                       let target = ''https://apiland.deno.dev/v2/modules/'' @ pkgName;
                           w1 = w\<lparr>requests := requests w @ [Fetch target]\<rparr>
                       in (case fetch pf (length (requests w)) target of
                             Throws e \<Rightarrow> (Inl e, w1)
                           | NotOk \<Rightarrow>
                               (Inr (Some pkgVersion, None),
                                w1\<lparr>denoLandDepsCache := (denoLandDepsCache w1)(pkgName \<mapsto> None)\<rparr>)
                           | Field latestVersion' \<Rightarrow>
                               (Inr (Some pkgVersion, Some latestVersion'),
                                w1\<lparr>denoLandDepsCache :=
                                     (denoLandDepsCache w1)(pkgName \<mapsto> Some latestVersion')\<rparr>)))))"

definition resolveGitHub :: "platform \<Rightarrow> URL \<Rightarrow> world \<Rightarrow> (fault + (string option \<times> string option)) \<times> world" where
  "resolveGitHub pf url w =
     (let path = drop 1 (js_split CHR ''/'' (pathname url));
          pkgName = template (at path 0) @ ''/'' @ template (at path 1);
          pkgVersion = at path 2
      in case gitHubDepsCache w pkgName of
           Some (Some cachedVersion) \<Rightarrow> (Inr (pkgVersion, Some cachedVersion), w)
         | _ \<Rightarrow>
             let w1 = w\<lparr>requests := requests w @ [GetLatestRelease (at path 0) (at path 1)]\<rparr>
             in (case getLatestRelease pf (length (requests w)) (at path 0) (at path 1) of
                   Rejected e \<Rightarrow> (Inl e, w1)
                 | Release tag_name \<Rightarrow>
                     let latestVersion' =
                           clean (semver pf) (case tag_name of None \<Rightarrow> [] | Some t \<Rightarrow> t)
                     in (Inr (pkgVersion, latestVersion'),
                         w1\<lparr>gitHubDepsCache := (gitHubDepsCache w1)(pkgName \<mapsto> latestVersion')\<rparr>)))"

subsection \<open>createDenoURLResolver\<close>

text \<open>The source's parameter \<^verbatim>\<open>url_\<close> is written \<open>urlStr\<close>.\<close>

definition createDenoURLResolver :: "platform \<Rightarrow> world Resolver" where
  "createDenoURLResolver pf urlStr w =
     (if take 4 urlStr = ''npm:'' then
        (case decomposePackageNameVersion (drop 4 urlStr) of
           (pkgName, pkgVersion) \<Rightarrow>
             (case npmResolver pf pkgName w of
                (Inl e, w') \<Rightarrow> (Inl e, w')
              | (Inr (_, latestVersion'), w') \<Rightarrow> (Inr (Some pkgVersion, latestVersion'), w')))
      else
        (case newURL pf urlStr of
           None \<Rightarrow> (Inr (None, None), w)
         | Some url \<Rightarrow>
             if hostname url = ''deno.land'' then resolveDenoLand pf url w
             else if hostname url = ''raw.githubusercontent.com'' then resolveGitHub pf url w
             else (Inr (None, None), w)))"

section \<open>Scans\<close>

text \<open>
  A \<^verbatim>\<open>Record<string, string>\<close> is an association list: the keys in the order in which
  \<^verbatim>\<open>Object.keys\<close> enumerates them, \<^verbatim>\<open>packages[pkgName]\<close> is \<open>map_of packages pkgName\<close>. Each
  \<^verbatim>\<open>for\<close> loop is a recursion over the remaining keys, with the summary built so far and
  the state; a resolver that throws ends the scan with its exception.
\<close>

definition Object_keys :: "(string \<times> 'v) list \<Rightarrow> string list" where
  "Object_keys obj = map fst obj"

fun checkDepsRecord_loop ::
  "semver_lib \<Rightarrow> (string \<times> string) list \<Rightarrow> 's Resolver \<Rightarrow> string list \<Rightarrow>
   VersionCheckSummaryItem list \<Rightarrow> 's \<Rightarrow> (fault + VersionCheckSummaryItem list) \<times> 's" where
  "checkDepsRecord_loop sv packages resolver [] summary s = (Inr summary, s)"
| "checkDepsRecord_loop sv packages resolver (pkgName # rest) summary s =
     (let curVer = map_of packages pkgName in
      case resolver pkgName s of
        (Inl e, s') \<Rightarrow> (Inl e, s')
      | (Inr (_, latestVer), s') \<Rightarrow>
          checkDepsRecord_loop sv packages resolver rest
            (summary @ [\<lparr>packageName = pkgName, currentVersion = curVer,
                          latestVersion = latestVer,
                          checkResult = checkVersion sv pkgName curVer latestVer\<rparr>]) s')"

definition checkDepsRecord ::
  "semver_lib \<Rightarrow> (string \<times> string) list \<Rightarrow> 's Resolver \<Rightarrow> 's \<Rightarrow>
   (fault + VersionCheckSummaryItem list) \<times> 's" where
  "checkDepsRecord sv packages resolver s =
     checkDepsRecord_loop sv packages resolver (Object_keys packages) [] s"




subsection \<open>URLs in free text\<close>



definition stripPrefix :: "string \<Rightarrow> string \<Rightarrow> string option" where
  "stripPrefix p s = (if take (length p) s = p then Some (drop (length p) s) else None)"









text \<open>A resolver that returns a pair for every resource in every state.\<close>

definition neverThrows :: "'s Resolver \<Rightarrow> bool" where
  "neverThrows resolver = (\<forall>x s. \<exists>p s'. resolver x s = (Inr p, s'))"

section \<open>A concrete platform\<close>

text \<open>
  For evaluation at concrete inputs: the world before any lookup, a fragment of the URL
  parser (it accepts \<^verbatim>\<open>https://host/path\<close> and rejects everything else, where
  \<^verbatim>\<open>new URL\<close> accepts more), a registry that knows \<^verbatim>\<open>left-pad\<close> at \<^verbatim>\<open>1.3.0\<close> and answers
  404 for any other request, and a release feed that answers 404.
\<close>

definition world0 :: world where
  "world0 = \<lparr> npmDepsCache = Map.empty, denoLandDepsCache = Map.empty,
              gitHubDepsCache = Map.empty, requests = [] \<rparr>"

definition https_URL :: "string \<Rightarrow> URL option" where
  "https_URL s =
     (case stripPrefix ''https://'' s of
        None \<Rightarrow> None
      | Some r \<Rightarrow>
          let h = takeWhile (\<lambda>ch. ch \<noteq> CHR ''/'') r;
              p = dropWhile (\<lambda>ch. ch \<noteq> CHR ''/'') r
          in if h = [] then None
             else Some \<lparr> hostname = h, pathname = (if p = [] then ''/'' else p) \<rparr>)"

definition demo_platform :: platform where
  "demo_platform =
     \<lparr> semver = semver_fragment,
       newURL = https_URL,
       fetch = (\<lambda>n url. if url = ''https://registry.npmjs.org/left-pad'' then Field ''1.3.0''
                         else NotOk),
       getLatestRelease = (\<lambda>n owner repo. Rejected (RequestError 404)) \<rparr>"

section \<open>Properties of the classifier\<close>

lemma falsy_simps: "falsy None" "falsy (Some s) = (s = [])"
  by (simp_all add: falsy_def)

lemma fragment_valid_nonempty: "fragment_valid l \<noteq> Some []"
proof (cases "parseVersion l")
  case None
  then show ?thesis by (simp add: fragment_valid_def)
next
  case (Some ver)
  have "mainVersion [] = None" by (simp add: mainVersion_def)
  with Some have "stripV l \<noteq> []" by (auto simp: parseVersion_def)
  with Some show ?thesis by (simp add: fragment_valid_def)
qed

lemma fragment_gtr_empty_range: "fragment_gtr v [] \<noteq> Inr True"
  by (cases "parseVersion v") (simp_all add: fragment_gtr_def parseRange_def)

lemma checkVersion_outdated_cases:
  "(checkVersion sv pkgName curVer latestVer = outdated) =
     (\<exists>c l v. curVer = Some c \<and> c \<noteq> [] \<and> latestVer = Some l \<and> l \<noteq> [] \<and>
        valid sv l = Some v \<and> v \<noteq> [] \<and> gtr sv v c = Inr True)"
proof (cases curVer)
  case None
  then show ?thesis by (simp add: checkVersion_def falsy_simps)
next
  case c: (Some c)
  show ?thesis
  proof (cases latestVer)
    case None
    with c show ?thesis by (simp add: checkVersion_def falsy_simps)
  next
    case l: (Some l)
    show ?thesis
    proof (cases "valid sv l")
      case None
      with c l show ?thesis by (simp add: checkVersion_def falsy_simps)
    next
      case v: (Some v)
      show ?thesis
      proof (cases "gtr sv v c")
        case (Inl f)
        with c l v show ?thesis by (simp add: checkVersion_def falsy_simps)
      next
        case (Inr b)
        with c l v show ?thesis by (simp add: checkVersion_def falsy_simps)
      qed
    qed
  qed
qed

text \<open>
  C1. \<open>checkVersion\<close> returns \<open>outdated\<close> exactly when the latest version is a valid
  semantic version (the library's \<open>valid\<close> returns its normalised form) and the library's
  range-aware comparison \<open>gtr\<close> says that it exceeds every version the current range
  accepts. The first equivalence is for an arbitrary library and spells out that the
  comparison is only reached for versions that are present and not empty. The second is
  the claim as it is written, for a library that, as semver does, rejects the empty
  version, never returns an empty normalised version, and ranks no version above the
  empty range. For a library that behaves as semver does on the two examples, the pair
  \<^verbatim>\<open>^1.0.0\<close>, \<^verbatim>\<open>2.0.0\<close> is \<open>outdated\<close> and the pair \<^verbatim>\<open>^1.0.0\<close>, \<^verbatim>\<open>1.5.0\<close> is \<open>latest\<close> or
  \<open>not_fixed\<close>, never \<open>outdated\<close>.
\<close>

theorem checkVersion_outdated_iff:
  "((checkVersion sv pkgName curVer latestVer = outdated) =
     (\<exists>c l v. curVer = Some c \<and> c \<noteq> [] \<and> latestVer = Some l \<and> l \<noteq> [] \<and>
        valid sv l = Some v \<and> v \<noteq> [] \<and> gtr sv v c = Inr True)) \<and>
   (valid sv [] = None \<and> (\<forall>l. valid sv l \<noteq> Some []) \<and> (\<forall>v. gtr sv v [] \<noteq> Inr True) \<longrightarrow>
      (checkVersion sv pkgName curVer latestVer = outdated) =
        (\<exists>c l v. curVer = Some c \<and> latestVer = Some l \<and> valid sv l = Some v \<and>
           gtr sv v c = Inr True)) \<and>
   (valid sv ''2.0.0'' = Some ''2.0.0'' \<and> gtr sv ''2.0.0'' ''^1.0.0'' = Inr True \<longrightarrow>
      checkVersion sv pkgName (Some ''^1.0.0'') (Some ''2.0.0'') = outdated) \<and>
   (valid sv ''1.5.0'' = Some ''1.5.0'' \<and> gtr sv ''1.5.0'' ''^1.0.0'' = Inr False \<longrightarrow>
      checkVersion sv pkgName (Some ''^1.0.0'') (Some ''1.5.0'') \<in> {latest, not_fixed})"
proof (intro conjI impI)
  show "(checkVersion sv pkgName curVer latestVer = outdated) =
     (\<exists>c l v. curVer = Some c \<and> c \<noteq> [] \<and> latestVer = Some l \<and> l \<noteq> [] \<and>
        valid sv l = Some v \<and> v \<noteq> [] \<and> gtr sv v c = Inr True)"
    by (rule checkVersion_outdated_cases)
next
  assume sane: "valid sv [] = None \<and> (\<forall>l. valid sv l \<noteq> Some []) \<and> (\<forall>v. gtr sv v [] \<noteq> Inr True)"
  show "(checkVersion sv pkgName curVer latestVer = outdated) =
        (\<exists>c l v. curVer = Some c \<and> latestVer = Some l \<and> valid sv l = Some v \<and>
           gtr sv v c = Inr True)"
  proof
    assume "checkVersion sv pkgName curVer latestVer = outdated"
    then show "\<exists>c l v. curVer = Some c \<and> latestVer = Some l \<and> valid sv l = Some v \<and>
           gtr sv v c = Inr True"
      unfolding checkVersion_outdated_cases by blast
  next
    assume "\<exists>c l v. curVer = Some c \<and> latestVer = Some l \<and> valid sv l = Some v \<and>
           gtr sv v c = Inr True"
    then obtain c l v where f: "curVer = Some c" "latestVer = Some l" "valid sv l = Some v"
      "gtr sv v c = Inr True" by blast
    from sane f(4) have "c \<noteq> []" by auto
    moreover from sane f(3) have "l \<noteq> []" by auto
    moreover from sane f(3) have "v \<noteq> []" by auto
    ultimately show "checkVersion sv pkgName curVer latestVer = outdated"
      unfolding checkVersion_outdated_cases using f by blast
  qed
next
  assume "valid sv ''2.0.0'' = Some ''2.0.0'' \<and> gtr sv ''2.0.0'' ''^1.0.0'' = Inr True"
  then show "checkVersion sv pkgName (Some ''^1.0.0'') (Some ''2.0.0'') = outdated"
    by (simp add: checkVersion_def falsy_simps)
next
  assume "valid sv ''1.5.0'' = Some ''1.5.0'' \<and> gtr sv ''1.5.0'' ''^1.0.0'' = Inr False"
  then show "checkVersion sv pkgName (Some ''^1.0.0'') (Some ''1.5.0'') \<in> {latest, not_fixed}"
    by (simp add: checkVersion_def falsy_simps)
qed

theorem checkVersion_outdated_iff_witness:
  "valid semver_fragment [] = None \<and>
   (\<forall>l. valid semver_fragment l \<noteq> Some []) \<and>
   (\<forall>v. gtr semver_fragment v [] \<noteq> Inr True) \<and>
   valid semver_fragment ''2.0.0'' = Some ''2.0.0'' \<and>
   gtr semver_fragment ''2.0.0'' ''^1.0.0'' = Inr True \<and>
   checkVersion semver_fragment ''left-pad'' (Some ''^1.0.0'') (Some ''2.0.0'') = outdated \<and>
   valid semver_fragment ''1.5.0'' = Some ''1.5.0'' \<and>
   gtr semver_fragment ''1.5.0'' ''^1.0.0'' = Inr False \<and>
   checkVersion semver_fragment ''left-pad'' (Some ''^1.0.0'') (Some ''1.5.0'') \<noteq> outdated"
proof -
  have s1: "valid semver_fragment [] = None" by code_simp
  have s2: "\<forall>l. valid semver_fragment l \<noteq> Some []"
    by (simp add: semver_fragment_def fragment_valid_nonempty)
  have s3: "\<forall>v. gtr semver_fragment v [] \<noteq> Inr True"
    by (simp add: semver_fragment_def fragment_gtr_empty_range)
  have v2: "valid semver_fragment ''2.0.0'' = Some ''2.0.0''" by code_simp
  have g2: "gtr semver_fragment ''2.0.0'' ''^1.0.0'' = Inr True" by code_simp
  have v1: "valid semver_fragment ''1.5.0'' = Some ''1.5.0''" by code_simp
  have g1: "gtr semver_fragment ''1.5.0'' ''^1.0.0'' = Inr False" by code_simp
  have "(checkVersion semver_fragment ''left-pad'' (Some ''^1.0.0'') (Some ''2.0.0'') = outdated) =
        (\<exists>c l v. Some ''^1.0.0'' = Some c \<and> Some ''2.0.0'' = Some l \<and>
           valid semver_fragment l = Some v \<and> gtr semver_fragment v c = Inr True)"
    using checkVersion_outdated_iff
            [of semver_fragment "''left-pad''" "Some ''^1.0.0''" "Some ''2.0.0''"] s1 s2 s3
    by blast
  with v2 g2
  have a: "checkVersion semver_fragment ''left-pad'' (Some ''^1.0.0'') (Some ''2.0.0'') = outdated"
    by simp
  have "checkVersion semver_fragment ''left-pad'' (Some ''^1.0.0'') (Some ''1.5.0'')
          \<in> {latest, not_fixed}"
    using checkVersion_outdated_iff [of semver_fragment "''left-pad''"] v1 g1 by blast
  then have b: "checkVersion semver_fragment ''left-pad'' (Some ''^1.0.0'') (Some ''1.5.0'') \<noteq> outdated"
    by auto
  from a b s1 s2 s3 v1 v2 g1 g2 show ?thesis by simp
qed

text \<open>
  C2, amended. A \<^verbatim>\<open>null\<close> current version gives \<open>invalid_version\<close> whatever the latest
  version is, and so does an empty current version: the guard \<^verbatim>\<open>!curVer\<close> does not
  tell them apart. A current version that is present and not empty, with a \<^verbatim>\<open>null\<close> latest
  version, gives \<open>not_found\<close>.
\<close>

theorem checkVersion_missing_versions:
  "checkVersion sv pkgName None latestVer = invalid_version \<and>
   checkVersion sv pkgName (Some []) latestVer = invalid_version \<and>
   (c \<noteq> [] \<longrightarrow> checkVersion sv pkgName (Some c) None = not_found)"
  by (simp add: checkVersion_def falsy_simps)

theorem checkVersion_missing_versions_witness:
  "checkVersion semver_fragment ''left-pad'' None (Some ''1.2.3'') = invalid_version \<and>
   checkVersion semver_fragment ''left-pad'' (Some ''1.2.3'') None = not_found"
  using checkVersion_missing_versions [of semver_fragment "''left-pad''" "Some ''1.2.3''" "''1.2.3''"]
  by simp

text \<open>
  The claim as stated fails for the empty string, a current version that is not \<^verbatim>\<open>null\<close>:
  with a \<^verbatim>\<open>null\<close> latest version the result is \<open>invalid_version\<close>, not \<open>not_found\<close>. The
  URL resolver produces this pair for an import \<^verbatim>\<open>npm:name\<close> without a version whose
  registry lookup fails.
\<close>

theorem checkVersion_empty_current_counterexample:
  "checkVersion semver_fragment ''left-pad'' (Some '''') None = invalid_version"
  by (simp add: checkVersion_def falsy_simps)

text \<open>
  C3, amended. When the current version is present and not empty, the latest version is
  not empty and valid, and the comparison returns false, the result is \<open>not_fixed\<close> if the
  current version is not itself a valid version and \<open>latest\<close> otherwise; for a library
  that accepts \<^verbatim>\<open>1.2.3\<close> and does not rank it above itself, the pair \<^verbatim>\<open>1.2.3\<close>, \<^verbatim>\<open>1.2.3\<close> is
  \<open>latest\<close>. An empty current version is treated as missing: \<open>invalid_version\<close>.
\<close>

theorem checkVersion_not_fixed_or_latest:
  "(c \<noteq> [] \<and> l \<noteq> [] \<and> valid sv l = Some v \<and> v \<noteq> [] \<and> gtr sv v c = Inr False \<longrightarrow>
      checkVersion sv pkgName (Some c) (Some l) =
        (if falsy (valid sv c) then not_fixed else latest)) \<and>
   (valid sv ''1.2.3'' = Some ''1.2.3'' \<and> gtr sv ''1.2.3'' ''1.2.3'' = Inr False \<longrightarrow>
      checkVersion sv pkgName (Some ''1.2.3'') (Some ''1.2.3'') = latest) \<and>
   checkVersion sv pkgName (Some []) (Some l) = invalid_version"
  by (simp add: checkVersion_def falsy_simps)

theorem checkVersion_not_fixed_or_latest_witness:
  "valid semver_fragment ''1.5.0'' = Some ''1.5.0'' \<and>
   gtr semver_fragment ''1.5.0'' ''^1.0.0'' = Inr False \<and>
   valid semver_fragment ''^1.0.0'' = None \<and>
   checkVersion semver_fragment ''left-pad'' (Some ''^1.0.0'') (Some ''1.5.0'') = not_fixed \<and>
   valid semver_fragment ''1.2.3'' = Some ''1.2.3'' \<and>
   gtr semver_fragment ''1.2.3'' ''1.2.3'' = Inr False \<and>
   checkVersion semver_fragment ''left-pad'' (Some ''1.2.3'') (Some ''1.2.3'') = latest"
proof -
  have v1: "valid semver_fragment ''1.5.0'' = Some ''1.5.0''" by code_simp
  have g1: "gtr semver_fragment ''1.5.0'' ''^1.0.0'' = Inr False" by code_simp
  have r1: "valid semver_fragment ''^1.0.0'' = None" by code_simp
  have v2: "valid semver_fragment ''1.2.3'' = Some ''1.2.3''" by code_simp
  have g2: "gtr semver_fragment ''1.2.3'' ''1.2.3'' = Inr False" by code_simp
  have a: "checkVersion semver_fragment ''left-pad'' (Some ''^1.0.0'') (Some ''1.5.0'') = not_fixed"
    using checkVersion_not_fixed_or_latest
      [of "''^1.0.0''" "''1.5.0''" semver_fragment "''1.5.0''" "''left-pad''"] v1 g1 r1
    by (simp add: falsy_simps)
  have b: "checkVersion semver_fragment ''left-pad'' (Some ''1.2.3'') (Some ''1.2.3'') = latest"
    using checkVersion_not_fixed_or_latest
      [of "''1.2.3''" "''1.2.3''" semver_fragment "''1.2.3''" "''left-pad''"] v2 g2
    by (simp add: falsy_simps)
  from a b v1 g1 r1 v2 g2 show ?thesis by simp
qed

text \<open>
  The claim as stated fails for the empty current version: it is present (not \<^verbatim>\<open>null\<close>),
  the latest version \<^verbatim>\<open>1.0.0\<close> is valid and does not exceed the empty range (which accepts
  every version), and the empty string is not a valid version; the claim gives
  \<open>not_fixed\<close>, the guard \<^verbatim>\<open>!curVer\<close> gives \<open>invalid_version\<close>.
\<close>

theorem checkVersion_empty_current_not_fixed_counterexample:
  "valid semver_fragment ''1.0.0'' = Some ''1.0.0'' \<and>
   gtr semver_fragment ''1.0.0'' '''' = Inr False \<and>
   valid semver_fragment '''' = None \<and>
   checkVersion semver_fragment ''left-pad'' (Some '''') (Some ''1.0.0'') = invalid_version"
proof -
  have "valid semver_fragment ''1.0.0'' = Some ''1.0.0''" by code_simp
  moreover have "gtr semver_fragment ''1.0.0'' '''' = Inr False" by code_simp
  moreover have "valid semver_fragment '''' = None" by code_simp
  moreover have
    "checkVersion semver_fragment ''left-pad'' (Some '''') (Some ''1.0.0'') = invalid_version"
    by (simp add: checkVersion_def falsy_simps)
  ultimately show ?thesis by simp
qed

text \<open>
  C4, amended. \<open>checkVersion\<close> is a total function: the only call that can throw,
  \<open>gtr\<close>, is made inside \<^verbatim>\<open>try\<close>, and its exception gives \<open>invalid_version\<close>. A latest
  version that is not empty and not valid gives \<open>invalid_version\<close> for every current
  version; a current version on which the comparison throws gives \<open>invalid_version\<close>, as
  \<^verbatim>\<open>not-a-version\<close> does for a library that accepts \<^verbatim>\<open>1.0.0\<close> and rejects that range. An
  empty latest version is treated as missing: \<open>not_found\<close> when the current version is
  present and not empty.
\<close>

theorem checkVersion_malformed:
  "(l \<noteq> [] \<and> falsy (valid sv l) \<longrightarrow>
      checkVersion sv pkgName curVer (Some l) = invalid_version) \<and>
   (c \<noteq> [] \<and> l \<noteq> [] \<and> valid sv l = Some v \<and> v \<noteq> [] \<and> gtr sv v c = Inl e \<longrightarrow>
      checkVersion sv pkgName (Some c) (Some l) = invalid_version) \<and>
   (valid sv ''1.0.0'' = Some ''1.0.0'' \<and> gtr sv ''1.0.0'' ''not-a-version'' = Inl e \<longrightarrow>
      checkVersion sv pkgName (Some ''not-a-version'') (Some ''1.0.0'') = invalid_version) \<and>
   (c \<noteq> [] \<longrightarrow> checkVersion sv pkgName (Some c) (Some []) = not_found)"
  by (auto simp: checkVersion_def falsy_def split: option.splits)

theorem checkVersion_malformed_witness:
  "valid semver_fragment ''latest-tag'' = None \<and>
   checkVersion semver_fragment ''left-pad'' (Some ''1.0.0'') (Some ''latest-tag'') = invalid_version \<and>
   valid semver_fragment ''1.0.0'' = Some ''1.0.0'' \<and>
   gtr semver_fragment ''1.0.0'' ''not-a-version'' = Inl TypeError \<and>
   checkVersion semver_fragment ''left-pad'' (Some ''not-a-version'') (Some ''1.0.0'') = invalid_version"
proof -
  have v1: "valid semver_fragment ''latest-tag'' = None" by code_simp
  have v2: "valid semver_fragment ''1.0.0'' = Some ''1.0.0''" by code_simp
  have g2: "gtr semver_fragment ''1.0.0'' ''not-a-version'' = Inl TypeError" by code_simp
  have a: "checkVersion semver_fragment ''left-pad'' (Some ''1.0.0'') (Some ''latest-tag'')
             = invalid_version"
    using checkVersion_malformed
      [of "''latest-tag''" semver_fragment "''left-pad''" "Some ''1.0.0''"] v1
    by (simp add: falsy_simps)
  have b: "checkVersion semver_fragment ''left-pad'' (Some ''not-a-version'') (Some ''1.0.0'')
             = invalid_version"
    using checkVersion_malformed
      [of "''1.0.0''" semver_fragment "''left-pad''" "Some ''not-a-version''"
          "''not-a-version''" "''1.0.0''" TypeError] v2 g2
    by simp
  from a b v1 v2 g2 show ?thesis by simp
qed

text \<open>
  The claim as stated fails for the empty string, a latest version that is not \<^verbatim>\<open>null\<close>
  and not a valid semantic version: the guard \<^verbatim>\<open>!latestVer\<close> gives \<open>not_found\<close>, not
  \<open>invalid_version\<close>.
\<close>

theorem checkVersion_empty_latest_counterexample:
  "valid semver_fragment '''' = None \<and>
   checkVersion semver_fragment ''left-pad'' (Some ''1.0.0'') (Some '''') = not_found"
proof -
  have "valid semver_fragment '''' = None" by code_simp
  moreover have
    "checkVersion semver_fragment ''left-pad'' (Some ''1.0.0'') (Some '''') = not_found"
    by (simp add: checkVersion_def falsy_simps)
  ultimately show ?thesis by simp
qed

section \<open>Properties of the resolvers\<close>

subsection \<open>decomposePackageNameVersion\<close>

lemma lastIndexOf_absent: "(lastIndexOf ch s < 0) = (ch \<notin> set s)"
  by (induction s) (auto simp: Let_def)

lemma lastIndexOf_split:
  "0 \<le> lastIndexOf ch s \<Longrightarrow>
     s = take (nat (lastIndexOf ch s)) s @ ch # drop (nat (lastIndexOf ch s) + 1) s \<and>
     ch \<notin> set (drop (nat (lastIndexOf ch s) + 1) s)"
proof (induction s)
  case Nil
  then show ?case by simp
next
  case (Cons x xs)
  show ?case
  proof (cases "0 \<le> lastIndexOf ch xs")
    case True
    then have n: "nat (lastIndexOf ch xs + 1) = Suc (nat (lastIndexOf ch xs))" by simp
    from True have v: "lastIndexOf ch (x # xs) = lastIndexOf ch xs + 1" by (simp add: Let_def)
    from Cons.IH [OF True] show ?thesis unfolding v n by simp
  next
    case False
    then have absent: "ch \<notin> set xs" by (simp add: lastIndexOf_absent [symmetric])
    from False Cons.prems have "x = ch" and "lastIndexOf ch (x # xs) = 0"
      by (auto simp: Let_def split: if_splits)
    with absent show ?thesis by simp
  qed
qed

lemma decomposePackageNameVersion_spec:
  assumes "decomposePackageNameVersion s = (n, v)"
  shows "CHR ''@'' \<notin> set v \<and>
         ((s = n \<and> v = [] \<and> CHR ''@'' \<notin> set (drop 1 s)) \<or> (s = n @ CHR ''@'' # v \<and> n \<noteq> []))"
proof -
  let ?i = "lastIndexOf CHR ''@'' s"
  consider "?i < 0" | "?i = 0" | "0 < ?i" by linarith
  then show ?thesis
  proof cases
    case 1
    then have "CHR ''@'' \<notin> set s" by (simp add: lastIndexOf_absent)
    then have "CHR ''@'' \<notin> set (drop 1 s)" by (meson in_set_dropD)
    moreover from 1 assms have "n = s" "v = []"
      by (simp_all add: decomposePackageNameVersion_def Let_def)
    ultimately show ?thesis by simp
  next
    case 2
    then have "CHR ''@'' \<notin> set (drop 1 s)" using lastIndexOf_split [of "CHR ''@''" s] by simp
    moreover from 2 assms have "n = s" "v = []"
      by (simp_all add: decomposePackageNameVersion_def Let_def)
    ultimately show ?thesis by simp
  next
    case 3
    then have sp: "s = take (nat ?i) s @ CHR ''@'' # drop (nat ?i + 1) s"
      and ab: "CHR ''@'' \<notin> set (drop (nat ?i + 1) s)"
      using lastIndexOf_split [of "CHR ''@''" s] by simp_all
    from 3 assms have n: "n = take (nat ?i) s" and v: "v = drop (nat ?i + 1) s"
      by (simp_all add: decomposePackageNameVersion_def Let_def)
    from sp have "s \<noteq> []" by auto
    with 3 have "n \<noteq> []" unfolding n by simp
    with sp ab show ?thesis unfolding n v by simp
  qed
qed

subsection \<open>The registry cache\<close>

lemma createNpmResolver_hit:
  "npmDepsCache w pkgName = Some (Some v) \<Longrightarrow>
     createNpmResolver pf pkgName w = (Inr (None, Some v), w)"
  by (simp add: createNpmResolver_def)

lemma createNpmResolver_found_is_cached:
  assumes "createNpmResolver pf pkgName w = (Inr (c, Some v), w1)"
  shows "npmDepsCache w1 pkgName = Some (Some v)"
proof (cases "\<exists>u. npmDepsCache w pkgName = Some (Some u)")
  case True
  then obtain u where u: "npmDepsCache w pkgName = Some (Some u)" by blast
  from createNpmResolver_hit [OF u] assms show ?thesis using u by simp
next
  case False
  then have miss: "npmDepsCache w pkgName = None \<or> npmDepsCache w pkgName = Some None"
    by (cases "npmDepsCache w pkgName") auto
  then show ?thesis using assms
    by (auto simp: createNpmResolver_def Let_def split: reply.splits)
qed

lemma createNpmResolver_second_call_hits:
  assumes "createNpmResolver pf pkgName w = (Inr (c, Some v), w1)"
  shows "createNpmResolver pf pkgName w1 = (Inr (None, Some v), w1)"
  using createNpmResolver_found_is_cached [OF assms] by (rule createNpmResolver_hit)

lemma createNpmResolver_cached_null_fetches:
  "npmDepsCache w pkgName = Some None \<Longrightarrow>
     requests (snd (createNpmResolver pf pkgName w)) =
       requests w @ [Fetch (''https://registry.npmjs.org/'' @ pkgName)]"
  by (simp add: createNpmResolver_def Let_def split: reply.splits)

lemma createNpmResolver_not_ok_caches_null:
  assumes "npmDepsCache w pkgName = None"
    and "fetch pf (length (requests w)) (''https://registry.npmjs.org/'' @ pkgName) = NotOk"
  shows "fst (createNpmResolver pf pkgName w) = Inr (None, None) \<and>
         npmDepsCache (snd (createNpmResolver pf pkgName w)) pkgName = Some None"
  using assms by (simp add: createNpmResolver_def Let_def)

subsection \<open>The release query\<close>

lemma resolveGitHub_rejected:
  assumes "gitHubDepsCache w (template (at path 0) @ ''/'' @ template (at path 1)) = None"
    and "path = drop 1 (js_split CHR ''/'' (pathname url))"
    and "getLatestRelease pf (length (requests w)) (at path 0) (at path 1) = Rejected e"
  shows "resolveGitHub pf url w =
           (Inl e, w\<lparr>requests := requests w @ [GetLatestRelease (at path 0) (at path 1)]\<rparr>)"
  using assms by (simp add: resolveGitHub_def Let_def)

lemma resolveGitHub_tag_not_semver:
  assumes "gitHubDepsCache w (template (at path 0) @ ''/'' @ template (at path 1)) = None"
    and "path = drop 1 (js_split CHR ''/'' (pathname url))"
    and "getLatestRelease pf (length (requests w)) (at path 0) (at path 1) = Release tag"
    and "clean (semver pf) (case tag of None \<Rightarrow> [] | Some t \<Rightarrow> t) = None"
  shows "fst (resolveGitHub pf url w) = Inr (at path 2, None) \<and>
         gitHubDepsCache (snd (resolveGitHub pf url w))
           (template (at path 0) @ ''/'' @ template (at path 1)) = Some None"
  using assms by (simp add: resolveGitHub_def Let_def)

subsection \<open>The URL dispatch\<close>

text \<open>
  C7. The cases of \<open>createDenoURLResolver\<close>, in the order of the source. A string that
  starts with \<^verbatim>\<open>npm:\<close> is answered by the registry resolver for the name part of the rest
  of the string, with the version part as the current version; the rest is split at its
  last \<^verbatim>\<open>@\<close> at an index greater than zero, and is the name with an empty version when
  there is none. Any other string that the URL parser rejects, and any other URL whose
  host is neither \<^verbatim>\<open>deno.land\<close> nor \<^verbatim>\<open>raw.githubusercontent.com\<close>, resolves to the pair of
  \<^verbatim>\<open>null\<close>s in an unchanged world: no request is made and no cache is written.
\<close>

theorem createDenoURLResolver_dispatch:
  "(take 4 urlStr = ''npm:'' \<and>
    decomposePackageNameVersion (drop 4 urlStr) = (pkgName, pkgVersion) \<longrightarrow>
      createDenoURLResolver pf urlStr w =
        (case npmResolver pf pkgName w of
           (Inl e, w') \<Rightarrow> (Inl e, w')
         | (Inr (c, l), w') \<Rightarrow> (Inr (Some pkgVersion, l), w')) \<and>
      CHR ''@'' \<notin> set pkgVersion \<and>
      ((drop 4 urlStr = pkgName \<and> pkgVersion = [] \<and> CHR ''@'' \<notin> set (drop 1 (drop 4 urlStr))) \<or>
       (drop 4 urlStr = pkgName @ CHR ''@'' # pkgVersion \<and> pkgName \<noteq> []))) \<and>
   (take 4 urlStr \<noteq> ''npm:'' \<and> newURL pf urlStr = None \<longrightarrow>
      createDenoURLResolver pf urlStr w = (Inr (None, None), w)) \<and>
   (take 4 urlStr \<noteq> ''npm:'' \<and> newURL pf urlStr = Some url \<and>
    hostname url \<noteq> ''deno.land'' \<and> hostname url \<noteq> ''raw.githubusercontent.com'' \<longrightarrow>
      createDenoURLResolver pf urlStr w = (Inr (None, None), w))"
proof (intro conjI impI)
  assume a: "take 4 urlStr = ''npm:'' \<and>
    decomposePackageNameVersion (drop 4 urlStr) = (pkgName, pkgVersion)"
  then show "createDenoURLResolver pf urlStr w =
        (case npmResolver pf pkgName w of
           (Inl e, w') \<Rightarrow> (Inl e, w')
         | (Inr (c, l), w') \<Rightarrow> (Inr (Some pkgVersion, l), w'))"
    by (simp add: createDenoURLResolver_def)
  from a have d: "decomposePackageNameVersion (drop 4 urlStr) = (pkgName, pkgVersion)" by simp
  from decomposePackageNameVersion_spec [OF d]
  show "CHR ''@'' \<notin> set pkgVersion"
    and "(drop 4 urlStr = pkgName \<and> pkgVersion = [] \<and> CHR ''@'' \<notin> set (drop 1 (drop 4 urlStr))) \<or>
       (drop 4 urlStr = pkgName @ CHR ''@'' # pkgVersion \<and> pkgName \<noteq> [])"
    by blast+
next
  assume "take 4 urlStr \<noteq> ''npm:'' \<and> newURL pf urlStr = None"
  then show "createDenoURLResolver pf urlStr w = (Inr (None, None), w)"
    by (simp add: createDenoURLResolver_def)
next
  assume "take 4 urlStr \<noteq> ''npm:'' \<and> newURL pf urlStr = Some url \<and>
    hostname url \<noteq> ''deno.land'' \<and> hostname url \<noteq> ''raw.githubusercontent.com''"
  then show "createDenoURLResolver pf urlStr w = (Inr (None, None), w)"
    by (simp add: createDenoURLResolver_def)
qed

theorem createDenoURLResolver_dispatch_witness:
  "decomposePackageNameVersion (drop 4 ''npm:@scope/pkg@1.2.3'') = (''@scope/pkg'', ''1.2.3'') \<and>
   createDenoURLResolver demo_platform ''npm:@scope/pkg@1.2.3'' world0 =
     (case npmResolver demo_platform ''@scope/pkg'' world0 of
        (Inl e, w') \<Rightarrow> (Inl e, w')
      | (Inr (c, l), w') \<Rightarrow> (Inr (Some ''1.2.3'', l), w')) \<and>
   requests (snd (createDenoURLResolver demo_platform ''npm:@scope/pkg@1.2.3'' world0)) =
     [Fetch ''https://registry.npmjs.org/@scope/pkg''] \<and>
   newURL demo_platform ''not a url'' = None \<and>
   createDenoURLResolver demo_platform ''not a url'' world0 = (Inr (None, None), world0) \<and>
   newURL demo_platform ''https://example.com/mod.ts'' =
     Some \<lparr>hostname = ''example.com'', pathname = ''/mod.ts''\<rparr> \<and>
   createDenoURLResolver demo_platform ''https://example.com/mod.ts'' world0 =
     (Inr (None, None), world0)"
proof -
  have d: "decomposePackageNameVersion (drop 4 ''npm:@scope/pkg@1.2.3'') = (''@scope/pkg'', ''1.2.3'')"
    by code_simp
  have p: "take 4 ''npm:@scope/pkg@1.2.3'' = ''npm:''" by simp
  from createDenoURLResolver_dispatch
         [of "''npm:@scope/pkg@1.2.3''" "''@scope/pkg''" "''1.2.3''" demo_platform world0] d p
  have a: "createDenoURLResolver demo_platform ''npm:@scope/pkg@1.2.3'' world0 =
     (case npmResolver demo_platform ''@scope/pkg'' world0 of
        (Inl e, w') \<Rightarrow> (Inl e, w')
      | (Inr (c, l), w') \<Rightarrow> (Inr (Some ''1.2.3'', l), w'))"
    by blast
  have a': "requests (snd (createDenoURLResolver demo_platform ''npm:@scope/pkg@1.2.3'' world0)) =
     [Fetch ''https://registry.npmjs.org/@scope/pkg'']"
    unfolding a by code_simp
  have n1: "take 4 ''not a url'' \<noteq> ''npm:''" by simp
  have u1: "newURL demo_platform ''not a url'' = None" by code_simp
  from createDenoURLResolver_dispatch [of "''not a url''" _ _ demo_platform world0] n1 u1
  have b: "createDenoURLResolver demo_platform ''not a url'' world0 = (Inr (None, None), world0)"
    by blast
  have n2: "take 4 ''https://example.com/mod.ts'' \<noteq> ''npm:''" by simp
  have u2: "newURL demo_platform ''https://example.com/mod.ts'' =
     Some \<lparr>hostname = ''example.com'', pathname = ''/mod.ts''\<rparr>" by code_simp
  have h: "hostname \<lparr>hostname = ''example.com'', pathname = ''/mod.ts''\<rparr> \<noteq> ''deno.land''"
    "hostname \<lparr>hostname = ''example.com'', pathname = ''/mod.ts''\<rparr> \<noteq> ''raw.githubusercontent.com''"
    by simp_all
  from createDenoURLResolver_dispatch
         [of "''https://example.com/mod.ts''" _ _ demo_platform world0
             "\<lparr>hostname = ''example.com'', pathname = ''/mod.ts''\<rparr>"] n2 u2 h
  have c: "createDenoURLResolver demo_platform ''https://example.com/mod.ts'' world0 =
     (Inr (None, None), world0)"
    by blast
  from d a a' u1 b u2 c show ?thesis by (simp only: simp_thms)
qed

subsection \<open>Lookups that fail\<close>

text \<open>
  C5 does not hold for a lookup that fails. The registry resolver stores \<^verbatim>\<open>null\<close> in the
  cache when the status is not a success, but it takes only a cached string for a hit
  (\<^verbatim>\<open>typeof cachedVersion === 'string'\<close>): the second call for a package the registry does
  not know finds the \<^verbatim>\<open>null\<close> and fetches again. After a lookup that found a version the
  second call is answered from the cache (\<open>createNpmResolver_second_call_hits\<close>).
\<close>

theorem createNpmResolver_refetches_after_failure:
  "fst (createNpmResolver demo_platform ''no-such-package'' world0) = Inr (None, None) \<and>
   npmDepsCache (snd (createNpmResolver demo_platform ''no-such-package'' world0))
     ''no-such-package'' = Some None \<and>
   requests (snd (createNpmResolver demo_platform ''no-such-package'' world0)) =
     [Fetch ''https://registry.npmjs.org/no-such-package''] \<and>
   fst (createNpmResolver demo_platform ''no-such-package''
          (snd (createNpmResolver demo_platform ''no-such-package'' world0))) = Inr (None, None) \<and>
   requests (snd (createNpmResolver demo_platform ''no-such-package''
                    (snd (createNpmResolver demo_platform ''no-such-package'' world0)))) =
     [Fetch ''https://registry.npmjs.org/no-such-package'',
      Fetch ''https://registry.npmjs.org/no-such-package'']"
  by code_simp

text \<open>
  C8 does not hold. \<open>resolveGitHub\<close> has no handler around the release query and
  does not look at a status: when the query is rejected, as it is for every status that
  is not a success, the exception leaves the resolver, nothing is cached and no pair is
  returned (\<open>resolveGitHub_rejected\<close>). The two sibling resolvers test \<^verbatim>\<open>res.ok\<close> and cache
  \<^verbatim>\<open>null\<close>; this one caches \<^verbatim>\<open>null\<close> only for a release whose tag is not a semantic
  version (\<open>resolveGitHub_tag_not_semver\<close>).
\<close>

theorem resolveGitHub_propagates_failed_query:
  "fst (createDenoURLResolver demo_platform
          ''https://raw.githubusercontent.com/owner/repo/main/mod.ts'' world0)
     = Inl (RequestError 404) \<and>
   gitHubDepsCache
     (snd (createDenoURLResolver demo_platform
             ''https://raw.githubusercontent.com/owner/repo/main/mod.ts'' world0))
     ''owner/repo'' = None \<and>
   requests
     (snd (createDenoURLResolver demo_platform
             ''https://raw.githubusercontent.com/owner/repo/main/mod.ts'' world0))
     = [GetLatestRelease (Some ''owner'') (Some ''repo'')]"
  by code_simp

section \<open>Properties of the scans\<close>

subsection \<open>One step of each loop\<close>

lemma checkDepsRecord_loop_throw:
  "resolver k s = (Inl e, s1) \<Longrightarrow>
   checkDepsRecord_loop sv packages resolver (k # rest) summary s = (Inl e, s1)"
  by simp

lemma checkDepsRecord_loop_step:
  "resolver k s = (Inr (cur, lat), s1) \<Longrightarrow>
   checkDepsRecord_loop sv packages resolver (k # rest) summary s =
     checkDepsRecord_loop sv packages resolver rest
       (summary @ [\<lparr>packageName = k, currentVersion = map_of packages k, latestVersion = lat,
                     checkResult = checkVersion sv k (map_of packages k) lat\<rparr>]) s1"
  by (simp add: Let_def)





subsection \<open>What a scan that returns has collected\<close>

lemma checkDepsRecord_loop_Inr:
  "checkDepsRecord_loop sv packages resolver keys summary s = (Inr out, s') \<Longrightarrow>
     \<exists>new. out = summary @ new \<and> map packageName new = keys \<and>
       map currentVersion new = map (map_of packages) keys"
proof (induction keys arbitrary: summary s)
  case Nil
  then show ?case by simp
next
  case (Cons k keys)
  obtain res s1 where r: "resolver k s = (res, s1)" by (cases "resolver k s")
  show ?case
  proof (cases res)
    case (Inl e)
    with r have "resolver k s = (Inl e, s1)" by simp
    from checkDepsRecord_loop_throw [where resolver = resolver and k = k and s = s, OF this]
      Cons.prems
    have "(Inl e, s1) = (Inr out, s')" by (simp only:)
    then show ?thesis by simp
  next
    case (Inr p)
    obtain cur lat where p: "p = (cur, lat)" by (cases p)
    let ?item = "\<lparr>packageName = k, currentVersion = map_of packages k, latestVersion = lat,
                  checkResult = checkVersion sv k (map_of packages k) lat\<rparr>"
    from r Inr p have "resolver k s = (Inr (cur, lat), s1)" by simp
    from checkDepsRecord_loop_step [where resolver = resolver and k = k and s = s, OF this]
      Cons.prems
    have "checkDepsRecord_loop sv packages resolver keys (summary @ [?item]) s1 = (Inr out, s')"
      by (simp only:)
    from Cons.IH [OF this] obtain new where new:
      "out = (summary @ [?item]) @ new" "map packageName new = keys"
      "map currentVersion new = map (map_of packages) keys" by blast
    have a: "out = summary @ (?item # new)" using new(1) by simp
    have b: "map packageName (?item # new) = k # keys" using new(2) by simp
    have c: "map currentVersion (?item # new) = map (map_of packages) (k # keys)"
      using new(3) by simp
    show ?thesis
      by (rule exI [of _ "?item # new"]) (simp only: a b c simp_thms)
  qed
qed



subsection \<open>A scan with a resolver that never throws returns\<close>

lemma checkDepsRecord_loop_total:
  assumes "neverThrows resolver"
  shows "\<exists>out s'. checkDepsRecord_loop sv packages resolver keys summary s = (Inr out, s')"
proof (induction keys arbitrary: summary s)
  case Nil
  then show ?case by simp
next
  case (Cons k keys)
  from assms obtain p s1 where r: "resolver k s = (Inr p, s1)"
    unfolding neverThrows_def by blast
  obtain cur lat where p: "p = (cur, lat)" by (cases p)
  let ?item = "\<lparr>packageName = k, currentVersion = map_of packages k, latestVersion = lat,
                checkResult = checkVersion sv k (map_of packages k) lat\<rparr>"
  from r p have "resolver k s = (Inr (cur, lat), s1)" by simp
  from checkDepsRecord_loop_step [where resolver = resolver and k = k and s = s, OF this]
  have "checkDepsRecord_loop sv packages resolver (k # keys) summary s =
     checkDepsRecord_loop sv packages resolver keys (summary @ [?item]) s1" .
  with Cons.IH [of "summary @ [?item]" s1] show ?case by (simp only:)
qed



lemma map_of_keys_distinct:
  "distinct (map fst xs) \<Longrightarrow> map (map_of xs) (map fst xs) = map (\<lambda>kv. Some (snd kv)) xs"
  by simp

subsection \<open>The matcher\<close>
















subsection \<open>The manifest scan\<close>

text \<open>
  C6. A manifest scan that returns has one item per key of the manifest, in the order of
  the keys, and the current version of each item is the version the manifest declares for
  that key: the first component of the resolver's answer is dropped. With a resolver that
  never throws the scan returns. For a resolver that answers \<^verbatim>\<open>1.3.0\<close> as the latest
  version of \<^verbatim>\<open>left-pad\<close>, whatever current version it reports, and a library that ranks
  \<^verbatim>\<open>1.3.0\<close> above \<^verbatim>\<open>1.0.0\<close>, the manifest \<^verbatim>\<open>{"left-pad": "1.0.0"}\<close> gives exactly one item,
  and it is \<open>outdated\<close>.
\<close>

theorem checkDepsRecord_current_from_manifest:
  "(checkDepsRecord sv packages resolver s = (Inr summary, s') \<longrightarrow>
      map packageName summary = map fst packages \<and>
      map currentVersion summary = map (map_of packages) (map fst packages)) \<and>
   (checkDepsRecord sv packages resolver s = (Inr summary, s') \<and> distinct (map fst packages) \<longrightarrow>
      map currentVersion summary = map (\<lambda>kv. Some (snd kv)) packages) \<and>
   (neverThrows resolver \<longrightarrow>
      (\<exists>out t. checkDepsRecord sv packages resolver s = (Inr out, t))) \<and>
   (resolver ''left-pad'' s = (Inr (cur, Some ''1.3.0''), s') \<and>
    valid sv ''1.3.0'' = Some ''1.3.0'' \<and> gtr sv ''1.3.0'' ''1.0.0'' = Inr True \<longrightarrow>
      checkDepsRecord sv [(''left-pad'', ''1.0.0'')] resolver s =
        (Inr [\<lparr>packageName = ''left-pad'', currentVersion = Some ''1.0.0'',
               latestVersion = Some ''1.3.0'', checkResult = outdated\<rparr>], s'))"
proof (intro conjI impI)
  assume r: "checkDepsRecord sv packages resolver s = (Inr summary, s')"
  then have "checkDepsRecord_loop sv packages resolver (map fst packages) [] s = (Inr summary, s')"
    by (simp add: checkDepsRecord_def Object_keys_def)
  from checkDepsRecord_loop_Inr [OF this]
  show "map packageName summary = map fst packages"
    and "map currentVersion summary = map (map_of packages) (map fst packages)"
    by auto
next
  assume "checkDepsRecord sv packages resolver s = (Inr summary, s') \<and> distinct (map fst packages)"
  then have
    "checkDepsRecord_loop sv packages resolver (map fst packages) [] s = (Inr summary, s')"
    and d: "distinct (map fst packages)"
    by (simp_all add: checkDepsRecord_def Object_keys_def)
  from checkDepsRecord_loop_Inr [OF this(1)]
  have "map currentVersion summary = map (map_of packages) (map fst packages)" by auto
  with map_of_keys_distinct [OF d]
  show "map currentVersion summary = map (\<lambda>kv. Some (snd kv)) packages" by simp
next
  assume "neverThrows resolver"
  from checkDepsRecord_loop_total [OF this]
  show "\<exists>out t. checkDepsRecord sv packages resolver s = (Inr out, t)"
    unfolding checkDepsRecord_def .
next
  assume a: "resolver ''left-pad'' s = (Inr (cur, Some ''1.3.0''), s') \<and>
    valid sv ''1.3.0'' = Some ''1.3.0'' \<and> gtr sv ''1.3.0'' ''1.0.0'' = Inr True"
  then have "checkVersion sv ''left-pad'' (Some ''1.0.0'') (Some ''1.3.0'') = outdated"
    by (simp add: checkVersion_def falsy_simps)
  moreover from a have
    "checkDepsRecord_loop sv [(''left-pad'', ''1.0.0'')] resolver [''left-pad''] [] s =
       checkDepsRecord_loop sv [(''left-pad'', ''1.0.0'')] resolver []
         ([] @ [\<lparr>packageName = ''left-pad'',
                  currentVersion = map_of [(''left-pad'', ''1.0.0'')] ''left-pad'',
                  latestVersion = Some ''1.3.0'',
                  checkResult = checkVersion sv ''left-pad''
                     (map_of [(''left-pad'', ''1.0.0'')] ''left-pad'') (Some ''1.3.0'')\<rparr>]) s'"
    by (intro checkDepsRecord_loop_step [where resolver = resolver and cur = cur]) simp
  ultimately show "checkDepsRecord sv [(''left-pad'', ''1.0.0'')] resolver s =
        (Inr [\<lparr>packageName = ''left-pad'', currentVersion = Some ''1.0.0'',
               latestVersion = Some ''1.3.0'', checkResult = outdated\<rparr>], s')"
    by (simp add: checkDepsRecord_def Object_keys_def)
qed

theorem checkDepsRecord_current_from_manifest_witness:
  "neverThrows (\<lambda>name (n::nat). (Inr (Some ''9.9.9'', Some ''1.3.0''), Suc n)) \<and>
   valid semver_fragment ''1.3.0'' = Some ''1.3.0'' \<and>
   gtr semver_fragment ''1.3.0'' ''1.0.0'' = Inr True \<and>
   checkDepsRecord semver_fragment [(''left-pad'', ''1.0.0'')]
       (\<lambda>name (n::nat). (Inr (Some ''9.9.9'', Some ''1.3.0''), Suc n)) 0 =
     (Inr [\<lparr>packageName = ''left-pad'', currentVersion = Some ''1.0.0'',
            latestVersion = Some ''1.3.0'', checkResult = outdated\<rparr>], Suc 0) \<and>
   map currentVersion
     [\<lparr>packageName = ''left-pad'', currentVersion = Some ''1.0.0'',
        latestVersion = Some ''1.3.0'', checkResult = outdated\<rparr>] = [Some ''1.0.0'']"
proof -
  let ?r = "\<lambda>name (n::nat). (Inr (Some ''9.9.9'', Some ''1.3.0''), Suc n)"
  let ?item = "\<lparr>packageName = ''left-pad'', currentVersion = Some ''1.0.0'',
                 latestVersion = Some ''1.3.0'', checkResult = outdated\<rparr>"
  have nt: "neverThrows ?r" by (simp add: neverThrows_def)
  have v: "valid semver_fragment ''1.3.0'' = Some ''1.3.0''" by code_simp
  have g: "gtr semver_fragment ''1.3.0'' ''1.0.0'' = Inr True" by code_simp
  have res: "checkDepsRecord semver_fragment [(''left-pad'', ''1.0.0'')] ?r 0 = (Inr [?item], Suc 0)"
    using checkDepsRecord_current_from_manifest
      [of semver_fragment "[(''left-pad'', ''1.0.0'')]" ?r 0 "[?item]" "Suc 0" "Some ''9.9.9''"]
      v g by simp
  have "map currentVersion [?item] = map (\<lambda>kv. Some (snd kv)) [(''left-pad'', ''1.0.0'')]"
    using checkDepsRecord_current_from_manifest
      [of semver_fragment "[(''left-pad'', ''1.0.0'')]" ?r 0 "[?item]" "Suc 0" "Some ''9.9.9''"]
      res by simp
  then have "map currentVersion [?item] = [Some ''1.0.0'']" by simp
  with nt v g res show ?thesis by simp
qed

subsection \<open>Order and number of the items\<close>




end
